theory Spec2Isabelle
  imports
    Main
    "HOL-Library.List_Lexorder"
    "HOL-Library.Product_Lexorder"
    "HOL-Library.Multiset"
begin

section \<open>HRMS Lite: a shallow embedding of \<^verbatim>\<open>backend/main.py\<close>\<close>

text \<open>
  The program is a set of request handlers over a relational store with two tables.
  Each handler opens a connection, runs a few SQL statements and commits. The model
  keeps the two tables as lists of rows in insertion order and writes every handler as
  a function from the committed store to the committed store after the request, paired
  with the handler's outcome: \<open>Inl\<close> an error (the exception that leaves the handler),
  \<open>Inr\<close> the response body.

  What the handlers take from their environment is a parameter of the model: the value of
  \<^verbatim>\<open>str(uuid.uuid4())\<close>, of \<^verbatim>\<open>datetime.now().isoformat()\<close> and of
  \<^verbatim>\<open>date.today().isoformat()\<close>, and the library functions whose code is not in the
  repository (see \<open>library\<close> below).
\<close>

subsection \<open>Text\<close>

text \<open>
  A Python \<^verbatim>\<open>str\<close> is a sequence of Unicode code points. SQLite compares \<^verbatim>\<open>TEXT\<close> under
  its default collation byte by byte in UTF-8, which is the lexicographic order of the code
  points.
\<close>

type_synonym str = "nat list"

text \<open>The \<^verbatim>\<open>str\<close> of an ASCII literal.\<close>

definition ascii :: "string \<Rightarrow> str" where
  "ascii cs = map of_char cs"

text \<open>
  The white space of \<^verbatim>\<open>str.strip\<close>: U+0009 to U+000D, U+001C to U+0020, U+0085, U+00A0,
  U+1680, U+2000 to U+200A, U+2028, U+2029, U+202F, U+205F and U+3000.
\<close>

definition isspace :: "nat \<Rightarrow> bool" where
  "isspace c =
     ((9 \<le> c \<and> c \<le> 13) \<or> (28 \<le> c \<and> c \<le> 32) \<or> c = 133 \<or> c = 160 \<or> c = 5760
      \<or> (8192 \<le> c \<and> c \<le> 8202) \<or> c = 8232 \<or> c = 8233 \<or> c = 8239 \<or> c = 8287 \<or> c = 12288)"

text \<open>\<^verbatim>\<open>v.strip()\<close>: white space removed at both ends.\<close>

definition strip :: "str \<Rightarrow> str" where
  "strip v = rev (dropWhile isspace (rev (dropWhile isspace v)))"

text \<open>
  The SQL function \<^verbatim>\<open>LOWER(...)\<close> of SQLite, which moves the ASCII letters A to Z to a to z
  and leaves every other character as it is.
\<close>

definition sql_lower :: "str \<Rightarrow> str" where
  "sql_lower v = map (\<lambda>c. if 65 \<le> c \<and> c \<le> 90 then c + 32 else c) v"

subsection \<open>Library functions\<close>

text \<open>
  Three functions of the Python libraries decide what the handlers see, and their code is
  not part of the repository. They are parameters of the model, and every theorem below
  holds whatever they compute:
  \<^item> \<open>py_lower\<close> is \<^verbatim>\<open>str.lower\<close>, the lower-casing of the Unicode character database;
  \<^item> \<open>py_EmailStr\<close> is the validation of the pydantic type \<^verbatim>\<open>EmailStr\<close>: \<open>None\<close> for a
    value it refuses, otherwise the address as it delivers it (white space stripped, the
    domain normalised);
  \<^item> \<open>py_strptime\<close> tells whether \<^verbatim>\<open>datetime.strptime(v, '%Y-%m-%d')\<close> accepts \<open>v\<close>.
\<close>

record library =
  py_lower :: "str \<Rightarrow> str"
  py_EmailStr :: "str \<Rightarrow> str option"
  py_strptime :: "str \<Rightarrow> bool"

subsection \<open>Pydantic models\<close>

datatype status = Present | Absent

record EmployeeCreate =
  e_employee_id :: str
  e_full_name :: str
  e_email :: str
  e_department :: str

record Employee = EmployeeCreate +
  e_id :: str
  e_created_at :: str

record EmployeeWithAttendance = Employee +
  present_days :: int
  absent_days :: int

record AttendanceCreate =
  a_employee_id :: str
  a_date :: str
  a_status :: status

record AttendanceRecord = AttendanceCreate +
  a_id :: str
  a_created_at :: str

record DashboardStats =
  total_employees :: int
  total_departments :: int
  present_today :: int
  absent_today :: int
  total_present :: int
  total_absent :: int
  departments :: "(str \<times> int) list"

text \<open>
  The exceptions that leave a handler: \<^verbatim>\<open>HTTPException(status_code, detail)\<close>, the
  validation error of the request layer, and \<^verbatim>\<open>sqlite3.IntegrityError\<close>, which no handler
  catches.
\<close>

datatype error = HTTPException nat string | ValidationError | IntegrityError

subsection \<open>Request validation of \<^verbatim>\<open>EmployeeCreate\<close>\<close>

text \<open>\<^verbatim>\<open>Field(..., min_length=lo, max_length=hi)\<close> on a str field.\<close>

definition field_length :: "nat \<Rightarrow> nat \<Rightarrow> str \<Rightarrow> error + str" where
  "field_length lo hi v = (if length v < lo \<or> hi < length v then Inl ValidationError else Inr v)"

text \<open>
  The validator \<^verbatim>\<open>not_empty\<close>: a value that is empty, or empty once stripped, is refused;
  otherwise the stripped value replaces the field.
\<close>

definition not_empty :: "str \<Rightarrow> error + str" where
  "not_empty v = (if v = [] \<or> strip v = [] then Inl ValidationError else Inr (strip v))"

text \<open>
  One constrained field: the length constraint on the value as received, then the validator.
\<close>

definition validate_field :: "nat \<Rightarrow> nat \<Rightarrow> str \<Rightarrow> error + str" where
  "validate_field lo hi v = (case field_length lo hi v of Inl err \<Rightarrow> Inl err | Inr w \<Rightarrow> not_empty w)"

text \<open>
  Construction of an \<^verbatim>\<open>EmployeeCreate\<close> from the received fields, in the order of the
  class: \<^verbatim>\<open>employee_id\<close>, \<^verbatim>\<open>full_name\<close>, \<^verbatim>\<open>email\<close> (of type \<^verbatim>\<open>EmailStr\<close>),
  \<^verbatim>\<open>department\<close>.
\<close>

definition EmployeeCreate_validate :: "library \<Rightarrow> EmployeeCreate \<Rightarrow> error + EmployeeCreate" where
  "EmployeeCreate_validate lib raw =
     (case validate_field 1 50 (e_employee_id raw) of
        Inl err \<Rightarrow> Inl err
      | Inr employee_id \<Rightarrow>
          (case validate_field 1 100 (e_full_name raw) of
             Inl err \<Rightarrow> Inl err
           | Inr full_name \<Rightarrow>
               (case py_EmailStr lib (e_email raw) of
                  None \<Rightarrow> Inl ValidationError
                | Some email \<Rightarrow>
                    (case validate_field 1 100 (e_department raw) of
                       Inl err \<Rightarrow> Inl err
                     | Inr department \<Rightarrow>
                         Inr \<lparr>e_employee_id = employee_id, e_full_name = full_name,
                              e_email = email, e_department = department\<rparr>))))"

subsection \<open>Request validation of \<^verbatim>\<open>AttendanceCreate\<close>\<close>

text \<open>
  The validator \<^verbatim>\<open>validate_date\<close>: the date is kept as received when \<^verbatim>\<open>strptime\<close> accepts
  it, refused otherwise. The status is one of the two literals, which is the type
  \<open>status\<close>.
\<close>

definition validate_date :: "library \<Rightarrow> str \<Rightarrow> error + str" where
  "validate_date lib v = (if py_strptime lib v then Inr v else Inl ValidationError)"

definition AttendanceCreate_validate :: "library \<Rightarrow> AttendanceCreate \<Rightarrow> error + AttendanceCreate" where
  "AttendanceCreate_validate lib raw =
     (case validate_date lib (a_date raw) of
        Inl err \<Rightarrow> Inl err
      | Inr date \<Rightarrow>
          Inr \<lparr>a_employee_id = a_employee_id raw, a_date = date, a_status = a_status raw\<rparr>)"

subsection \<open>The store\<close>

text \<open>
  The two tables of \<^verbatim>\<open>init_db\<close>, each a list of rows in insertion order. A row of
  \<^verbatim>\<open>employees\<close> has the columns of \<^typ>\<open>Employee\<close>, a row of \<^verbatim>\<open>attendance\<close> those of
  \<^typ>\<open>AttendanceRecord\<close>; the \<^verbatim>\<open>CHECK\<close> on \<^verbatim>\<open>status\<close> is the type \<^typ>\<open>status\<close>.
\<close>

record store =
  employees :: "Employee list"
  attendance :: "AttendanceRecord list"

text \<open>\<^verbatim>\<open>init_db\<close> on a new database file: both tables exist and are empty.\<close>

definition init_db :: store where
  "init_db = \<lparr>employees = [], attendance = []\<rparr>"

text \<open>
  \<^verbatim>\<open>INSERT INTO employees\<close>. The table declares \<^verbatim>\<open>id\<close> as primary key and \<^verbatim>\<open>employee_id\<close>
  and \<^verbatim>\<open>email\<close> as \<^verbatim>\<open>UNIQUE\<close>: a row that repeats one of them is refused with
  \<^verbatim>\<open>IntegrityError\<close>.
\<close>

definition insert_employee :: "store \<Rightarrow> Employee \<Rightarrow> error + store" where
  "insert_employee s row =
     (if e_id row \<in> set (map e_id (employees s))
         \<or> e_employee_id row \<in> set (map e_employee_id (employees s))
         \<or> e_email row \<in> set (map e_email (employees s))
      then Inl IntegrityError
      else Inr (s\<lparr>employees := employees s @ [row]\<rparr>))"

text \<open>
  \<^verbatim>\<open>INSERT INTO attendance\<close>. The table declares \<^verbatim>\<open>id\<close> as primary key and
  \<^verbatim>\<open>UNIQUE(employee_id, date)\<close>. Its foreign key is not enforced by a connection that
  never switches \<^verbatim>\<open>PRAGMA foreign_keys\<close> on, and no handler relies on it.
\<close>

definition insert_attendance :: "store \<Rightarrow> AttendanceRecord \<Rightarrow> error + store" where
  "insert_attendance s row =
     (if a_id row \<in> set (map a_id (attendance s))
         \<or> (a_employee_id row, a_date row) \<in> set (map (\<lambda>a. (a_employee_id a, a_date a)) (attendance s))
      then Inl IntegrityError
      else Inr (s\<lparr>attendance := attendance s @ [row]\<rparr>))"

text \<open>
  \<^verbatim>\<open>ORDER BY key DESC\<close>. SQL leaves the order of rows with equal keys open; the model sorts
  stably and reverses.
\<close>

definition order_by_desc :: "('a \<Rightarrow> 'k::linorder) \<Rightarrow> 'a list \<Rightarrow> 'a list" where
  "order_by_desc key rows = rev (sort_key key rows)"

subsection \<open>Employee endpoints\<close>

text \<open>
  The rows of \<^verbatim>\<open>FROM employees e LEFT JOIN attendance a ON e.id = a.employee_id\<close>: every
  employee with each of its attendance rows, or once with no attendance row.
\<close>

definition join_rows :: "AttendanceRecord list \<Rightarrow> Employee \<Rightarrow> (Employee \<times> AttendanceRecord option) list" where
  "join_rows as e =
     (case filter (\<lambda>a. e_id e = a_employee_id a) as of
        [] \<Rightarrow> [(e, None)]
      | ms \<Rightarrow> map (\<lambda>a. (e, Some a)) ms)"

definition left_join :: "Employee list \<Rightarrow> AttendanceRecord list \<Rightarrow> (Employee \<times> AttendanceRecord option) list" where
  "left_join es as = concat (map (join_rows as) es)"

text \<open>\<^verbatim>\<open>GROUP BY e.id\<close>: one group of joined rows for each value of \<^verbatim>\<open>e.id\<close>.\<close>

definition group_by_id :: "(Employee \<times> AttendanceRecord option) list \<Rightarrow> (Employee \<times> AttendanceRecord option) list list" where
  "group_by_id rows =
     map (\<lambda>k. filter (\<lambda>r. e_id (fst r) = k) rows) (remdups (map (\<lambda>r. e_id (fst r)) rows))"

text \<open>\<^verbatim>\<open>CASE WHEN a.status = ? THEN 1 ELSE 0 END\<close>; the status of a missing row is NULL.\<close>

definition case_status :: "status \<Rightarrow> (Employee \<times> AttendanceRecord option) \<Rightarrow> int" where
  "case_status st r = (case snd r of None \<Rightarrow> 0 | Some a \<Rightarrow> if a_status a = st then 1 else 0)"

text \<open>
  The output row of one group: the employee's columns and the two sums, assembled into the
  response dictionary. A group is never empty.
\<close>

fun summary_row :: "(Employee \<times> AttendanceRecord option) list \<Rightarrow> EmployeeWithAttendance list" where
  "summary_row [] = []"
| "summary_row ((e, a) # rows) =
     [\<lparr>e_employee_id = e_employee_id e, e_full_name = e_full_name e, e_email = e_email e,
       e_department = e_department e, e_id = e_id e, e_created_at = e_created_at e,
       present_days = sum_list (map (case_status Present) ((e, a) # rows)),
       absent_days = sum_list (map (case_status Absent) ((e, a) # rows))\<rparr>]"

text \<open>\<^verbatim>\<open>GET /api/employees\<close>.\<close>

definition get_employees :: "store \<Rightarrow> EmployeeWithAttendance list" where
  "get_employees s =
     order_by_desc e_created_at
       (concat (map summary_row (group_by_id (left_join (employees s) (attendance s)))))"

text \<open>
  \<^verbatim>\<open>GET /api/employees/{employee_id}\<close>: the same query with \<^verbatim>\<open>WHERE e.id = ?\<close>, and
  \<^verbatim>\<open>fetchone\<close>.
\<close>

definition get_employee :: "store \<Rightarrow> str \<Rightarrow> error + EmployeeWithAttendance" where
  "get_employee s employee_id =
     (case concat (map summary_row (group_by_id
              (filter (\<lambda>r. e_id (fst r) = employee_id) (left_join (employees s) (attendance s))))) of
        [] \<Rightarrow> Inl (HTTPException 404 ''Employee not found'')
      | row # _ \<Rightarrow> Inr row)"

text \<open>
  \<^verbatim>\<open>POST /api/employees\<close> on a validated payload. \<open>new_id\<close> is the value of
  \<^verbatim>\<open>str(uuid.uuid4())\<close> and \<open>created_at\<close> that of \<^verbatim>\<open>datetime.now().isoformat()\<close>. An
  \<^verbatim>\<open>INSERT\<close> that the table refuses raises before \<^verbatim>\<open>commit\<close>.
\<close>

definition create_employee :: "library \<Rightarrow> store \<Rightarrow> EmployeeCreate \<Rightarrow> str \<Rightarrow> str \<Rightarrow> store \<times> (error + Employee)" where
  "create_employee lib s employee new_id created_at =
     (if find (\<lambda>e. e_employee_id e = e_employee_id employee) (employees s) \<noteq> None
      then (s, Inl (HTTPException 400 ''An employee with this Employee ID already exists''))
      else if find (\<lambda>e. sql_lower (e_email e) = sql_lower (e_email employee)) (employees s) \<noteq> None
      then (s, Inl (HTTPException 400 ''An employee with this email already exists''))
      else
        (case insert_employee s
                \<lparr>e_employee_id = e_employee_id employee, e_full_name = e_full_name employee,
                 e_email = py_lower lib (e_email employee), e_department = e_department employee,
                 e_id = new_id, e_created_at = created_at\<rparr> of
           Inl err \<Rightarrow> (s, Inl err)
         | Inr s' \<Rightarrow>
             (s', Inr \<lparr>e_employee_id = e_employee_id employee, e_full_name = e_full_name employee,
                       e_email = py_lower lib (e_email employee), e_department = e_department employee,
                       e_id = new_id, e_created_at = created_at\<rparr>)))"

text \<open>The same endpoint from the received fields: validation, then the handler.\<close>

definition post_employee :: "library \<Rightarrow> store \<Rightarrow> EmployeeCreate \<Rightarrow> str \<Rightarrow> str \<Rightarrow> store \<times> (error + Employee)" where
  "post_employee lib s raw new_id created_at =
     (case EmployeeCreate_validate lib raw of
        Inl err \<Rightarrow> (s, Inl err)
      | Inr employee \<Rightarrow> create_employee lib s employee new_id created_at)"

text \<open>\<^verbatim>\<open>DELETE /api/employees/{employee_id}\<close>: two deletions, then one \<^verbatim>\<open>commit\<close>.\<close>

definition delete_employee :: "store \<Rightarrow> str \<Rightarrow> store \<times> (error + unit)" where
  "delete_employee s employee_id =
     (case find (\<lambda>e. e_id e = employee_id) (employees s) of
        None \<Rightarrow> (s, Inl (HTTPException 404 ''Employee not found''))
      | Some _ \<Rightarrow>
          (let s1 = s\<lparr>attendance := filter (\<lambda>a. a_employee_id a \<noteq> employee_id) (attendance s)\<rparr>;
               s2 = s1\<lparr>employees := filter (\<lambda>e. e_id e \<noteq> employee_id) (employees s1)\<rparr>
           in (s2, Inr ())))"

subsection \<open>Attendance endpoints\<close>

text \<open>
  \<^verbatim>\<open>GET /api/attendance\<close>. A query parameter is used when it is truthy: present and not the
  empty str. The date orders before \<^verbatim>\<open>created_at\<close>, both descending.
\<close>

definition get_attendance :: "store \<Rightarrow> str option \<Rightarrow> str option \<Rightarrow> AttendanceRecord list" where
  "get_attendance s employee_id date =
     (let rows = attendance s;
          rows = (case employee_id of
                    None \<Rightarrow> rows
                  | Some v \<Rightarrow> if v \<noteq> [] then filter (\<lambda>a. a_employee_id a = v) rows else rows);
          rows = (case date of
                    None \<Rightarrow> rows
                  | Some v \<Rightarrow> if v \<noteq> [] then filter (\<lambda>a. a_date a = v) rows else rows)
      in order_by_desc (\<lambda>a. (a_date a, a_created_at a)) rows)"

text \<open>
  \<^verbatim>\<open>POST /api/attendance\<close> on a validated payload; \<open>new_id\<close> and \<open>created_at\<close> as in
  \<open>create_employee\<close>. \<^verbatim>\<open>UPDATE ... WHERE id = ?\<close> rewrites every row with that id.
\<close>

definition mark_attendance :: "store \<Rightarrow> AttendanceCreate \<Rightarrow> str \<Rightarrow> str \<Rightarrow> store \<times> (error + AttendanceRecord)" where
  "mark_attendance s att new_id created_at =
     (case find (\<lambda>e. e_id e = a_employee_id att) (employees s) of
        None \<Rightarrow> (s, Inl (HTTPException 404 ''Employee not found''))
      | Some _ \<Rightarrow>
          (case find (\<lambda>a. a_employee_id a = a_employee_id att \<and> a_date a = a_date att) (attendance s) of
             Some existing \<Rightarrow>
               (s\<lparr>attendance :=
                     map (\<lambda>a. if a_id a = a_id existing
                               then a\<lparr>a_status := a_status att, a_created_at := created_at\<rparr> else a)
                         (attendance s)\<rparr>,
                Inr \<lparr>a_employee_id = a_employee_id att, a_date = a_date att, a_status = a_status att,
                     a_id = a_id existing, a_created_at = created_at\<rparr>)
           | None \<Rightarrow>
               (case insert_attendance s
                       \<lparr>a_employee_id = a_employee_id att, a_date = a_date att, a_status = a_status att,
                        a_id = new_id, a_created_at = created_at\<rparr> of
                  Inl err \<Rightarrow> (s, Inl err)
                | Inr s' \<Rightarrow>
                    (s', Inr \<lparr>a_employee_id = a_employee_id att, a_date = a_date att,
                              a_status = a_status att, a_id = new_id, a_created_at = created_at\<rparr>))))"

text \<open>The same endpoint from the received fields: validation, then the handler.\<close>

definition post_attendance :: "library \<Rightarrow> store \<Rightarrow> AttendanceCreate \<Rightarrow> str \<Rightarrow> str \<Rightarrow> store \<times> (error + AttendanceRecord)" where
  "post_attendance lib s raw new_id created_at =
     (case AttendanceCreate_validate lib raw of
        Inl err \<Rightarrow> (s, Inl err)
      | Inr att \<Rightarrow> mark_attendance s att new_id created_at)"

text \<open>\<^verbatim>\<open>DELETE /api/attendance/{record_id}\<close>.\<close>

definition delete_attendance :: "store \<Rightarrow> str \<Rightarrow> store \<times> (error + unit)" where
  "delete_attendance s record_id =
     (case find (\<lambda>a. a_id a = record_id) (attendance s) of
        None \<Rightarrow> (s, Inl (HTTPException 404 ''Attendance record not found''))
      | Some _ \<Rightarrow> (s\<lparr>attendance := filter (\<lambda>a. a_id a \<noteq> record_id) (attendance s)\<rparr>, Inr ()))"

subsection \<open>Dashboard\<close>

text \<open>
  \<^verbatim>\<open>SELECT COUNT(*) FROM attendance WHERE ...\<close>. The double-quoted \<^verbatim>\<open>"Present"\<close> and
  \<^verbatim>\<open>"Absent"\<close> of the queries name no column and are read as str literals.
\<close>

definition count_attendance :: "(AttendanceRecord \<Rightarrow> bool) \<Rightarrow> store \<Rightarrow> int" where
  "count_attendance p s = int (length (filter p (attendance s)))"

text \<open>\<^verbatim>\<open>GET /api/dashboard\<close>; \<open>today\<close> is the value of \<^verbatim>\<open>date.today().isoformat()\<close>.\<close>

definition get_dashboard_stats :: "store \<Rightarrow> str \<Rightarrow> DashboardStats" where
  "get_dashboard_stats s today =
     \<lparr>total_employees = int (length (employees s)),
      total_departments = int (length (remdups (map e_department (employees s)))),
      present_today = count_attendance (\<lambda>a. a_date a = today \<and> a_status a = Present) s,
      absent_today = count_attendance (\<lambda>a. a_date a = today \<and> a_status a = Absent) s,
      total_present = count_attendance (\<lambda>a. a_status a = Present) s,
      total_absent = count_attendance (\<lambda>a. a_status a = Absent) s,
      departments =
        order_by_desc snd
          (map (\<lambda>d. (d, int (length (filter (\<lambda>e. e_department e = d) (employees s)))))
               (remdups (map e_department (employees s))))\<rparr>"

subsection \<open>Sequences of requests\<close>

text \<open>
  The requests that change the store, each with the values its handler draws from the
  environment.
\<close>

datatype request =
    CreateEmployee EmployeeCreate str str
  | DeleteEmployee str
  | MarkAttendance AttendanceCreate str str
  | DeleteAttendance str

fun step :: "library \<Rightarrow> store \<Rightarrow> request \<Rightarrow> store" where
  "step lib s (CreateEmployee raw new_id now) = fst (post_employee lib s raw new_id now)"
| "step lib s (DeleteEmployee employee_id) = fst (delete_employee s employee_id)"
| "step lib s (MarkAttendance raw new_id now) = fst (post_attendance lib s raw new_id now)"
| "step lib s (DeleteAttendance record_id) = fst (delete_attendance s record_id)"

text \<open>The store after a sequence of requests, the first one on a new database.\<close>

definition exec :: "library \<Rightarrow> request list \<Rightarrow> store" where
  "exec lib reqs = foldl (step lib) init_db reqs"

subsection \<open>Notions used in the statements\<close>

text \<open>
  A record matches the filters that were supplied: each filter that is present fixes its
  column.
\<close>

definition matches_supplied :: "str option \<Rightarrow> str option \<Rightarrow> AttendanceRecord \<Rightarrow> bool" where
  "matches_supplied employee_id date a =
     ((case employee_id of None \<Rightarrow> True | Some v \<Rightarrow> a_employee_id a = v)
      \<and> (case date of None \<Rightarrow> True | Some v \<Rightarrow> a_date a = v))"

text \<open>
  A query parameter as the handler reads it: the empty str counts as absent.
\<close>

definition effective :: "str option \<Rightarrow> str option" where
  "effective p = (case p of None \<Rightarrow> None | Some v \<Rightarrow> if v = [] then None else Some v)"

text \<open>
  What the tables guarantee in every state the handlers produce: the primary keys, the
  \<^verbatim>\<open>UNIQUE(employee_id, date)\<close> constraint, and an existing employee behind every attendance
  row.
\<close>

definition store_inv :: "store \<Rightarrow> bool" where
  "store_inv s =
     (distinct (map e_id (employees s))
      \<and> distinct (map a_id (attendance s))
      \<and> distinct (map (\<lambda>a. (a_employee_id a, a_date a)) (attendance s))
      \<and> (\<forall>a\<in>set (attendance s). a_employee_id a \<in> e_id ` set (employees s)))"

text \<open>
  An employee with its counts, in the words of the specification: the number of the
  employee's attendance records that are Present, and the number that are Absent.
\<close>

definition employee_summary :: "AttendanceRecord list \<Rightarrow> Employee \<Rightarrow> EmployeeWithAttendance" where
  "employee_summary as e =
     \<lparr>e_employee_id = e_employee_id e, e_full_name = e_full_name e, e_email = e_email e,
      e_department = e_department e, e_id = e_id e, e_created_at = e_created_at e,
      present_days = int (length (filter (\<lambda>a. a_employee_id a = e_id e \<and> a_status a = Present) as)),
      absent_days = int (length (filter (\<lambda>a. a_employee_id a = e_id e \<and> a_status a = Absent) as))\<rparr>"

subsection \<open>Sample data\<close>

text \<open>
  \<^verbatim>\<open>str.lower\<close> on text whose code points are below U+0100: the letters A to Z and the
  capital letters U+00C0 to U+00DE (U+00D7, the multiplication sign, is no letter) move up
  by 32.
\<close>

definition lower_latin1 :: "str \<Rightarrow> str" where
  "lower_latin1 v =
     map (\<lambda>c. if (65 \<le> c \<and> c \<le> 90) \<or> (192 \<le> c \<and> c \<le> 222 \<and> c \<noteq> 215) then c + 32 else c) v"

text \<open>
  A library for the examples; the theorems hold for every library and are evaluated at this
  one. Its \<open>py_EmailStr\<close> and \<open>py_strptime\<close> are the tables of what the library functions
  answer on the values the examples use: an address is delivered without the white space
  around it and with its domain in lower case, the local part as it was supplied.
  \<open>[233]\<close> is the letter e with acute accent (U+00E9) and \<open>[201]\<close> its capital (U+00C9).
\<close>

definition sample_library :: library where
  "sample_library =
     \<lparr>py_lower = lower_latin1,
      py_EmailStr = map_of
        [(ascii '' Jane.Doe@Example.com '', ascii ''Jane.Doe@example.com''),
         (ascii ''JANE.DOE@example.COM'', ascii ''JANE.DOE@example.com''),
         ([233] @ ascii ''mile@example.com'', [233] @ ascii ''mile@example.com''),
         ([201] @ ascii ''MILE@Example.com'', [201] @ ascii ''MILE@example.com'')],
      py_strptime = (\<lambda>v. v \<in> set [ascii ''2024-01-15'', ascii ''2024-01-16''])\<rparr>"

definition jane :: EmployeeCreate where
  "jane = \<lparr>e_employee_id = ascii '' E001 '', e_full_name = ascii ''  Jane Doe  '',
           e_email = ascii '' Jane.Doe@Example.com '', e_department = ascii ''HR''\<rparr>"

definition jane_row :: Employee where
  "jane_row = \<lparr>e_employee_id = ascii ''E001'', e_full_name = ascii ''Jane Doe'',
               e_email = ascii ''jane.doe@example.com'', e_department = ascii ''HR'',
               e_id = ascii ''u1'', e_created_at = ascii ''2024-01-01T09:00:00''\<rparr>"

definition office :: store where
  "office = \<lparr>employees = [jane_row],
             attendance = [\<lparr>a_employee_id = ascii ''u1'', a_date = ascii ''2024-01-15'',
                            a_status = Present, a_id = ascii ''r1'',
                            a_created_at = ascii ''2024-01-15T09:00:00''\<rparr>]\<rparr>"

text \<open>
  Two employees whose addresses differ in the case of letters only, one of them not an
  ASCII letter.
\<close>

definition emile :: EmployeeCreate where
  "emile = \<lparr>e_employee_id = ascii ''E002'', e_full_name = ascii ''Emile Roux'',
            e_email = [233] @ ascii ''mile@example.com'', e_department = ascii ''IT''\<rparr>"

definition emile_capitals :: EmployeeCreate where
  "emile_capitals = \<lparr>e_employee_id = ascii ''E003'', e_full_name = ascii ''Emile Roux'',
            e_email = [201] @ ascii ''MILE@Example.com'', e_department = ascii ''IT''\<rparr>"

definition emile_row :: Employee where
  "emile_row = \<lparr>e_employee_id = ascii ''E002'', e_full_name = ascii ''Emile Roux'',
                e_email = [233] @ ascii ''mile@example.com'', e_department = ascii ''IT'',
                e_id = ascii ''u2'', e_created_at = ascii ''2024-01-02T09:00:00''\<rparr>"

section \<open>Auxiliary facts\<close>

subsection \<open>Lists\<close>

lemma find_unique:
  "x \<in> set xs \<Longrightarrow> p x \<Longrightarrow> (\<forall>y\<in>set xs. p y \<longrightarrow> y = x) \<Longrightarrow> find p xs = Some x"
proof (induction xs)
  case Nil
  then show ?case by simp
next
  case (Cons a xs)
  show ?case
  proof (cases "p a")
    case True
    with Cons.prems(3) have "a = x" by simp
    with True show ?thesis by simp
  next
    case False
    with Cons.prems(1,2) have "x \<in> set xs" by auto
    moreover from Cons.prems(3) have "\<forall>y\<in>set xs. p y \<longrightarrow> y = x" by simp
    ultimately have "find p xs = Some x" using Cons.prems(2) by (intro Cons.IH)
    with False show ?thesis by simp
  qed
qed

lemma find_exists: "\<exists>x\<in>set xs. p x \<Longrightarrow> \<exists>y. find p xs = Some y"
  by (induction xs) auto

lemma find_Some_member: "find p xs = Some x \<Longrightarrow> x \<in> set xs \<and> p x"
  by (induction xs) (auto split: if_splits)

lemma distinct_map_same:
  assumes "distinct (map f xs)" and "x \<in> set xs" and "y \<in> set xs" and "f x = f y"
  shows "x = y"
proof -
  from assms(1) have "inj_on f (set xs)" by (simp add: distinct_map)
  from this assms(4,2,3) show ?thesis by (rule inj_onD)
qed

subsection \<open>Sorting\<close>

lemma mset_order_by_desc: "mset (order_by_desc key rows) = mset rows"
  by (simp add: order_by_desc_def)

lemma set_order_by_desc: "set (order_by_desc key rows) = set rows"
  by (simp add: order_by_desc_def)

lemma sorted_order_by_desc: "sorted_wrt (\<lambda>x y. key y \<le> key x) (order_by_desc key rows)"
proof -
  have "sorted (map key (sort_key key rows))" by simp
  then have "sorted_wrt (\<lambda>x y. key x \<le> key y) (sort_key key rows)"
    by (simp add: sorted_wrt_map)
  then show ?thesis
    by (simp add: order_by_desc_def sorted_wrt_rev)
qed

subsection \<open>Handlers\<close>

lemma get_attendance_rows:
  "get_attendance s employee_id date =
     order_by_desc (\<lambda>a. (a_date a, a_created_at a))
       (filter (matches_supplied (effective employee_id) (effective date)) (attendance s))"
  by (cases employee_id; cases date)
     (simp_all add: get_attendance_def matches_supplied_def[abs_def] effective_def)

lemma validate_field_Inr: "validate_field lo hi v = Inr w \<Longrightarrow> w = strip v"
  by (auto simp: validate_field_def field_length_def not_empty_def split: if_splits)

lemma EmployeeCreate_validate_Inr:
  assumes "EmployeeCreate_validate lib raw = Inr employee"
  shows "\<exists>email. py_EmailStr lib (e_email raw) = Some email
           \<and> employee = \<lparr>e_employee_id = strip (e_employee_id raw), e_full_name = strip (e_full_name raw),
                     e_email = email, e_department = strip (e_department raw)\<rparr>"
  using assms
  by (auto simp: EmployeeCreate_validate_def split: sum.splits option.splits dest!: validate_field_Inr)

lemma create_employee_Inr:
  assumes "create_employee lib s employee new_id now = (s', Inr r)"
  shows "r = \<lparr>e_employee_id = e_employee_id employee, e_full_name = e_full_name employee,
              e_email = py_lower lib (e_email employee), e_department = e_department employee,
              e_id = new_id, e_created_at = now\<rparr>
         \<and> s' = s\<lparr>employees := employees s @ [r]\<rparr>
         \<and> new_id \<notin> e_id ` set (employees s)"
  using assms
  by (auto simp: create_employee_def insert_employee_def split: if_splits sum.splits)

lemma create_employee_rejects_duplicates:
  "((\<exists>e\<in>set (employees s). e_employee_id e = e_employee_id employee) \<longrightarrow>
      create_employee lib s employee new_id now
        = (s, Inl (HTTPException 400 ''An employee with this Employee ID already exists'')))
   \<and> ((\<forall>e\<in>set (employees s). e_employee_id e \<noteq> e_employee_id employee)
        \<and> (\<exists>e\<in>set (employees s). sql_lower (e_email e) = sql_lower (e_email employee)) \<longrightarrow>
      create_employee lib s employee new_id now
        = (s, Inl (HTTPException 400 ''An employee with this email already exists'')))"
  by (auto simp add: create_employee_def find_None_iff)

lemma find_by_key:
  assumes "distinct (map (\<lambda>a. (a_employee_id a, a_date a)) rows)"
    and "existing \<in> set rows"
    and "a_employee_id existing = e" and "a_date existing = d"
  shows "find (\<lambda>a. a_employee_id a = e \<and> a_date a = d) rows = Some existing"
proof (rule find_unique)
  show "existing \<in> set rows" by (rule assms(2))
  show "a_employee_id existing = e \<and> a_date existing = d" using assms(3,4) by simp
  show "\<forall>y\<in>set rows. a_employee_id y = e \<and> a_date y = d \<longrightarrow> y = existing"
  proof (intro ballI impI)
    fix y assume y: "y \<in> set rows" and k: "a_employee_id y = e \<and> a_date y = d"
    from k assms(3,4) have "(a_employee_id y, a_date y) = (a_employee_id existing, a_date existing)"
      by simp
    with assms(1) y assms(2) show "y = existing"
      by (rule distinct_map_same)
  qed
qed

lemma update_by_id:
  assumes "distinct (map a_id rows)" and "existing \<in> set rows"
  shows "map (\<lambda>a. if a_id a = a_id existing then g a else a) rows
       = map (\<lambda>a. if a = existing then g a else a) rows"
proof (rule map_cong[OF refl])
  fix a assume a: "a \<in> set rows"
  have "(a_id a = a_id existing) = (a = existing)"
  proof
    assume "a_id a = a_id existing"
    with assms(1) a assms(2) show "a = existing" by (rule distinct_map_same)
  next
    assume "a = existing" then show "a_id a = a_id existing" by simp
  qed
  then show "(if a_id a = a_id existing then g a else a) = (if a = existing then g a else a)"
    by simp
qed

lemma mark_attendance_update:
  assumes pk: "distinct (map a_id (attendance s))"
    and uq: "distinct (map (\<lambda>a. (a_employee_id a, a_date a)) (attendance s))"
    and emp: "\<exists>e\<in>set (employees s). e_id e = a_employee_id att"
    and mem: "existing \<in> set (attendance s)"
    and key: "a_employee_id existing = a_employee_id att \<and> a_date existing = a_date att"
  shows "mark_attendance s att new_id now =
              (s\<lparr>attendance :=
                   map (\<lambda>a. if a = existing then a\<lparr>a_status := a_status att, a_created_at := now\<rparr> else a)
                       (attendance s)\<rparr>,
               Inr \<lparr>a_employee_id = a_employee_id att, a_date = a_date att, a_status = a_status att,
                    a_id = a_id existing, a_created_at = now\<rparr>)"
proof -
  from find_exists[OF emp] obtain e where e: "find (\<lambda>e. e_id e = a_employee_id att) (employees s) = Some e"
    by blast
  from key have k1: "a_employee_id existing = a_employee_id att" and k2: "a_date existing = a_date att"
    by simp_all
  note f = find_by_key[OF uq mem k1 k2]
  note m = update_by_id[OF pk mem, of "\<lambda>a. a\<lparr>a_status := a_status att, a_created_at := now\<rparr>"]
  show ?thesis
    unfolding mark_attendance_def e f option.case m ..
qed

lemma mark_attendance_insert:
  assumes emp: "\<exists>e\<in>set (employees s). e_id e = a_employee_id att"
    and none: "\<forall>a\<in>set (attendance s). \<not> (a_employee_id a = a_employee_id att \<and> a_date a = a_date att)"
    and fresh: "new_id \<notin> a_id ` set (attendance s)"
  shows "mark_attendance s att new_id now =
              (s\<lparr>attendance := attendance s @
                   [\<lparr>a_employee_id = a_employee_id att, a_date = a_date att, a_status = a_status att,
                     a_id = new_id, a_created_at = now\<rparr>]\<rparr>,
               Inr \<lparr>a_employee_id = a_employee_id att, a_date = a_date att, a_status = a_status att,
                    a_id = new_id, a_created_at = now\<rparr>)"
proof -
  from find_exists[OF emp] obtain e where e: "find (\<lambda>e. e_id e = a_employee_id att) (employees s) = Some e"
    by blast
  from none have f: "find (\<lambda>a. a_employee_id a = a_employee_id att \<and> a_date a = a_date att) (attendance s) = None"
    by (simp add: find_None_iff)
  from none have k: "(a_employee_id att, a_date att) \<notin> (\<lambda>a. (a_employee_id a, a_date a)) ` set (attendance s)"
    by auto
  have i: "insert_attendance s \<lparr>a_employee_id = a_employee_id att, a_date = a_date att, a_status = a_status att,
                     a_id = new_id, a_created_at = now\<rparr>
        = Inr (s\<lparr>attendance := attendance s @
                   [\<lparr>a_employee_id = a_employee_id att, a_date = a_date att, a_status = a_status att,
                     a_id = new_id, a_created_at = now\<rparr>]\<rparr>)"
    using fresh k by (simp add: insert_attendance_def)
  show ?thesis
    unfolding mark_attendance_def e f option.case i sum.case ..
qed

subsection \<open>The invariant of the store\<close>

lemma store_inv_init_db: "store_inv init_db"
  by (simp add: store_inv_def init_db_def)

lemma store_inv_create_employee:
  assumes "store_inv s"
  shows "store_inv (fst (create_employee lib s employee new_id now))"
  using assms
  by (auto simp: create_employee_def insert_employee_def store_inv_def split: sum.splits)

lemma store_inv_post_employee:
  assumes "store_inv s"
  shows "store_inv (fst (post_employee lib s raw new_id now))"
  using assms store_inv_create_employee
  by (auto simp: post_employee_def split: sum.splits)

lemma store_inv_delete_employee:
  assumes "store_inv s"
  shows "store_inv (fst (delete_employee s employee_id))"
  using assms
  by (auto simp: delete_employee_def store_inv_def distinct_map_filter Let_def split: option.splits)

lemma store_inv_delete_attendance:
  assumes "store_inv s"
  shows "store_inv (fst (delete_attendance s record_id))"
  using assms
  by (auto simp: delete_attendance_def store_inv_def distinct_map_filter split: option.splits)

lemma update_keeps_columns:
  "a_id \<circ> (\<lambda>a. if p a then a\<lparr>a_status := st, a_created_at := t\<rparr> else a) = a_id"
  "(\<lambda>a. (a_employee_id a, a_date a)) \<circ> (\<lambda>a. if p a then a\<lparr>a_status := st, a_created_at := t\<rparr> else a)
     = (\<lambda>a. (a_employee_id a, a_date a))"
  by (auto simp: fun_eq_iff)

lemma store_inv_mark_attendance:
  assumes "store_inv s"
  shows "store_inv (fst (mark_attendance s att new_id now))"
proof (cases "find (\<lambda>e. e_id e = a_employee_id att) (employees s)")
  case None
  then show ?thesis using assms by (simp add: mark_attendance_def)
next
  case (Some e)
  from find_Some_member[OF this]
  have "e \<in> set (employees s)" and "e_id e = a_employee_id att" by simp_all
  then have emp: "a_employee_id att \<in> e_id ` set (employees s)"
    by (metis imageI)
  show ?thesis
  proof (cases "find (\<lambda>a. a_employee_id a = a_employee_id att \<and> a_date a = a_date att) (attendance s)")
    case None
    with Some emp assms show ?thesis
      by (auto simp: mark_attendance_def insert_attendance_def store_inv_def)
  next
    case existing: (Some existing)
    from Some existing assms show ?thesis
      by (auto simp: mark_attendance_def store_inv_def update_keeps_columns)
  qed
qed

lemma store_inv_post_attendance:
  assumes "store_inv s"
  shows "store_inv (fst (post_attendance lib s raw new_id now))"
  using assms store_inv_mark_attendance
  by (auto simp: post_attendance_def split: sum.splits)

lemma store_inv_step: "store_inv s \<Longrightarrow> store_inv (step lib s req)"
  by (cases req)
     (simp_all add: store_inv_post_employee store_inv_delete_employee
        store_inv_post_attendance store_inv_delete_attendance)

lemma store_inv_foldl: "store_inv s \<Longrightarrow> store_inv (foldl (step lib) s reqs)"
  by (induction reqs arbitrary: s) (simp_all add: store_inv_step)

lemma store_inv_exec: "store_inv (exec lib reqs)"
  by (simp add: exec_def store_inv_foldl store_inv_init_db)

subsection \<open>The employee list as a join\<close>

lemma sum_case_status:
  "sum_list (map (case_status st) (map (\<lambda>a. (e, Some a)) xs)) = int (length (filter (\<lambda>a. a_status a = st) xs))"
  by (induction xs) (simp_all add: case_status_def)

lemma filter_join_condition:
  "filter (\<lambda>a. a_employee_id a = k \<and> a_status a = st) as
     = filter (\<lambda>a. a_status a = st) (filter (\<lambda>a. k = a_employee_id a) as)"
  by (induction as) simp_all

lemma summary_row_join_rows: "summary_row (join_rows as e) = [employee_summary as e]"
proof (cases "filter (\<lambda>a. e_id e = a_employee_id a) as")
  case Nil
  then show ?thesis
    by (simp add: join_rows_def employee_summary_def filter_join_condition case_status_def)
next
  case (Cons m ms)
  have "summary_row (join_rows as e) = summary_row ((e, Some m) # map (\<lambda>a. (e, Some a)) ms)"
    by (simp add: join_rows_def Cons)
  also have "\<dots> = [employee_summary as e]"
    using sum_case_status[of Present e "m # ms"] sum_case_status[of Absent e "m # ms"]
    by (simp add: employee_summary_def filter_join_condition Cons)
  finally show ?thesis .
qed

lemma join_rows_keys:
  "map (\<lambda>r. e_id (fst r)) (join_rows as e) = replicate (length (join_rows as e)) (e_id e)"
  by (cases "filter (\<lambda>a. e_id e = a_employee_id a) as")
     (simp_all add: join_rows_def map_replicate_const comp_def)

lemma join_rows_nonempty: "0 < length (join_rows as e)"
  by (cases "filter (\<lambda>a. e_id e = a_employee_id a) as") (simp_all add: join_rows_def)

lemma remdups_replicate_append:
  "0 < n \<Longrightarrow> x \<notin> set ys \<Longrightarrow> remdups (replicate n x @ ys) = x # remdups ys"
proof (induction n)
  case 0
  then show ?case by simp
next
  case (Suc n)
  show ?case
  proof (cases "n = 0")
    case True
    with Suc.prems show ?thesis by simp
  next
    case False
    with Suc have "remdups (replicate n x @ ys) = x # remdups ys" by simp
    moreover from False have "x \<in> set (replicate n x @ ys)" by simp
    ultimately show ?thesis by simp
  qed
qed

lemma left_join_keys_subset:
  "set (map (\<lambda>r. e_id (fst r)) (left_join es as)) \<subseteq> e_id ` set es"
proof (induction es)
  case Nil
  then show ?case by (simp add: left_join_def)
next
  case (Cons e es)
  have "set (map (\<lambda>r. e_id (fst r)) (join_rows as e)) \<subseteq> {e_id e}"
    by (simp add: join_rows_keys set_replicate_conv_if)
  with Cons show ?case
    by (auto simp: left_join_def)
qed


lemma remdups_left_join_keys:
  "distinct (map e_id es) \<Longrightarrow> remdups (map (\<lambda>r. e_id (fst r)) (left_join es as)) = map e_id es"
proof (induction es)
  case Nil
  then show ?case by (simp add: left_join_def)
next
  case (Cons e es)
  from Cons.prems have d: "distinct (map e_id es)" and n: "e_id e \<notin> e_id ` set es" by simp_all
  from n left_join_keys_subset[of es as]
  have fresh: "e_id e \<notin> set (map (\<lambda>r. e_id (fst r)) (left_join es as))" by blast
  have "map (\<lambda>r. e_id (fst r)) (left_join (e # es) as)
          = replicate (length (join_rows as e)) (e_id e) @ map (\<lambda>r. e_id (fst r)) (left_join es as)"
    by (simp add: left_join_def join_rows_keys)
  then have "remdups (map (\<lambda>r. e_id (fst r)) (left_join (e # es) as))
          = e_id e # remdups (map (\<lambda>r. e_id (fst r)) (left_join es as))"
    using remdups_replicate_append[OF join_rows_nonempty fresh] by simp
  with Cons.IH[OF d] show ?case by simp
qed

lemma join_rows_fst: "r \<in> set (join_rows as e) \<Longrightarrow> fst r = e"
  by (cases "filter (\<lambda>a. e_id e = a_employee_id a) as") (auto simp: join_rows_def)

lemma filter_join_rows:
  "filter (\<lambda>r. e_id (fst r) = k) (join_rows as e) = (if e_id e = k then join_rows as e else [])"
proof -
  have "filter (\<lambda>r. e_id (fst r) = k) (join_rows as e) = filter (\<lambda>r. e_id e = k) (join_rows as e)"
    by (rule filter_cong[OF refl]) (simp add: join_rows_fst)
  then show ?thesis by simp
qed

lemma filter_left_join:
  "distinct (map e_id es) \<Longrightarrow> e \<in> set es \<Longrightarrow>
     filter (\<lambda>r. e_id (fst r) = e_id e) (left_join es as) = join_rows as e"
proof (induction es)
  case Nil
  then show ?case by simp
next
  case (Cons x es)
  from Cons.prems(1) have d: "distinct (map e_id es)" and n: "e_id x \<notin> e_id ` set es" by simp_all
  have split: "filter (\<lambda>r. e_id (fst r) = e_id e) (left_join (x # es) as)
      = filter (\<lambda>r. e_id (fst r) = e_id e) (join_rows as x)
        @ filter (\<lambda>r. e_id (fst r) = e_id e) (left_join es as)"
    by (simp add: left_join_def)
  show ?case
  proof (cases "e = x")
    case True
    have "\<forall>r\<in>set (left_join es as). e_id (fst r) \<noteq> e_id x"
    proof
      fix r assume "r \<in> set (left_join es as)"
      then have "e_id (fst r) \<in> set (map (\<lambda>r. e_id (fst r)) (left_join es as))" by simp
      with left_join_keys_subset[of es as] have "e_id (fst r) \<in> e_id ` set es" by blast
      with n show "e_id (fst r) \<noteq> e_id x" by metis
    qed
    then have "filter (\<lambda>r. e_id (fst r) = e_id x) (left_join es as) = []"
      by (simp add: filter_empty_conv)
    with split True show ?thesis by (simp add: filter_join_rows)
  next
    case False
    with Cons.prems(2) have m: "e \<in> set es" by simp
    with n have "e_id x \<noteq> e_id e" by (metis imageI)
    with split Cons.IH[OF d m] show ?thesis by (simp add: filter_join_rows)
  qed
qed

lemma group_by_id_left_join:
  assumes "distinct (map e_id es)"
  shows "group_by_id (left_join es as) = map (join_rows as) es"
proof -
  have "group_by_id (left_join es as)
          = map (\<lambda>k. filter (\<lambda>r. e_id (fst r) = k) (left_join es as)) (map e_id es)"
    by (simp add: group_by_id_def remdups_left_join_keys[OF assms])
  also have "\<dots> = map (\<lambda>e. filter (\<lambda>r. e_id (fst r) = e_id e) (left_join es as)) es"
    by (simp add: comp_def)
  also have "\<dots> = map (join_rows as) es"
    by (rule map_cong[OF refl]) (rule filter_left_join[OF assms])
  finally show ?thesis .
qed

lemma concat_summary_rows:
  "concat (map summary_row (map (join_rows as) es)) = map (employee_summary as) es"
  by (induction es) (simp_all add: summary_row_join_rows)

lemma get_employees_rows:
  assumes "distinct (map e_id (employees s))"
  shows "get_employees s
           = order_by_desc e_created_at (map (employee_summary (attendance s)) (employees s))"
  by (simp only: get_employees_def group_by_id_left_join[OF assms] concat_summary_rows)

lemma get_employee_found:
  assumes d: "distinct (map e_id (employees s))" and m: "e \<in> set (employees s)"
  shows "get_employee s (e_id e) = Inr (employee_summary (attendance s) e)"
proof -
  have "group_by_id (left_join [e] (attendance s)) = map (join_rows (attendance s)) [e]"
    by (rule group_by_id_left_join) simp
  then have g: "group_by_id (join_rows (attendance s) e) = [join_rows (attendance s) e]"
    by (simp add: left_join_def)
  show ?thesis
    by (simp add: get_employee_def filter_left_join[OF d m] g summary_row_join_rows)
qed

lemma e_id_employee_summary: "map e_id (map (employee_summary as) es) = map e_id es"
  by (simp add: employee_summary_def comp_def)

lemma distinct_ids_get_employees:
  assumes "distinct (map e_id (employees s))"
  shows "distinct (map e_id (get_employees s))"
proof -
  have a: "mset (get_employees s) = mset (map (employee_summary (attendance s)) (employees s))"
    by (simp add: get_employees_rows[OF assms] mset_order_by_desc)
  have "mset (map e_id (get_employees s)) = image_mset e_id (mset (get_employees s))"
    by simp
  also have "\<dots> = image_mset e_id (mset (map (employee_summary (attendance s)) (employees s)))"
    by (simp only: a)
  also have "\<dots> = mset (map e_id (map (employee_summary (attendance s)) (employees s)))"
    by (simp only: mset_map)
  also have "\<dots> = mset (map e_id (employees s))"
    by (simp only: e_id_employee_summary)
  finally have "mset (map e_id (get_employees s)) = mset (map e_id (employees s))" .
  from mset_eq_imp_distinct_iff[OF this] assms show ?thesis by simp
qed

lemma get_employee_after_create:
  assumes i: "store_inv s" and c: "create_employee lib s employee new_id now = (s', Inr r)"
  shows "get_employee s' (e_id r) =
           Inr \<lparr>e_employee_id = e_employee_id r, e_full_name = e_full_name r, e_email = e_email r,
                e_department = e_department r, e_id = e_id r, e_created_at = e_created_at r,
                present_days = 0, absent_days = 0\<rparr>"
proof -
  from create_employee_Inr[OF c]
  have s': "s' = s\<lparr>employees := employees s @ [r]\<rparr>" and n: "new_id \<notin> e_id ` set (employees s)"
    and id: "e_id r = new_id" by simp_all
  from store_inv_create_employee[OF i, of lib employee new_id now] c have i': "store_inv s'" by simp
  then have d: "distinct (map e_id (employees s'))" by (simp add: store_inv_def)
  from s' have m: "r \<in> set (employees s')" by simp
  from i have "\<forall>a\<in>set (attendance s). a_employee_id a \<in> e_id ` set (employees s)"
    by (simp add: store_inv_def)
  with n id have "\<forall>a\<in>set (attendance s). a_employee_id a \<noteq> e_id r" by metis
  then have z: "filter (\<lambda>a. a_employee_id a = e_id r \<and> a_status a = st) (attendance s) = []" for st
    by (simp add: filter_empty_conv)
  from s' have "attendance s' = attendance s" by simp
  with z have "employee_summary (attendance s') r =
           \<lparr>e_employee_id = e_employee_id r, e_full_name = e_full_name r, e_email = e_email r,
                e_department = e_department r, e_id = e_id r, e_created_at = e_created_at r,
                present_days = 0, absent_days = 0\<rparr>"
    by (simp add: employee_summary_def)
  with get_employee_found[OF d m] show ?thesis by simp
qed

subsection \<open>Sums of counts\<close>

lemma sum_list_order_by_desc:
  "sum_list (map f (order_by_desc key rows)) = sum_list (map (f :: 'a \<Rightarrow> int) rows)"
proof -
  have "mset (map f (order_by_desc key rows)) = mset (map f rows)"
    by (simp add: mset_order_by_desc)
  then have "sum_mset (mset (map f (order_by_desc key rows))) = sum_mset (mset (map f rows))"
    by simp
  then show ?thesis by (simp only: sum_mset_sum_list)
qed

lemma sum_indicator_distinct:
  "distinct (map f xs) \<Longrightarrow>
     sum_list (map (\<lambda>x. if f x = k then (1::int) else 0) xs) = (if k \<in> f ` set xs then 1 else 0)"
proof (induction xs)
  case Nil
  then show ?case by simp
next
  case (Cons x xs)
  from Cons.prems have d: "distinct (map f xs)" and n: "f x \<notin> f ` set xs" by simp_all
  show ?case
  proof (cases "f x = k")
    case True
    with n have "k \<notin> f ` set xs" by simp
    with Cons.IH[OF d] True show ?thesis by simp
  next
    case False
    with Cons.IH[OF d] show ?thesis by simp
  qed
qed

lemma sum_counts_per_employee:
  assumes d: "distinct (map e_id es)"
  shows "sum_list (map (\<lambda>e. int (length (filter (\<lambda>a. a_employee_id a = e_id e \<and> p a) as))) es)
           = int (length (filter (\<lambda>a. p a \<and> a_employee_id a \<in> e_id ` set es) as))"
proof (induction as)
  case Nil
  then show ?case by simp
next
  case (Cons a as)
  have "sum_list (map (\<lambda>e. int (length (filter (\<lambda>a. a_employee_id a = e_id e \<and> p a) (a # as)))) es)
      = sum_list (map (\<lambda>e. (if e_id e = a_employee_id a \<and> p a then 1 else 0)
                            + int (length (filter (\<lambda>a. a_employee_id a = e_id e \<and> p a) as))) es)"
    by (rule arg_cong[where f = sum_list], rule map_cong[OF refl]) auto
  also have "\<dots> = sum_list (map (\<lambda>e. if e_id e = a_employee_id a \<and> p a then 1 else 0) es)
                   + sum_list (map (\<lambda>e. int (length (filter (\<lambda>a. a_employee_id a = e_id e \<and> p a) as))) es)"
    by (simp add: sum_list_addf)
  also have "sum_list (map (\<lambda>e. if e_id e = a_employee_id a \<and> p a then (1::int) else 0) es)
                = (if p a \<and> a_employee_id a \<in> e_id ` set es then 1 else 0)"
  proof (cases "p a")
    case True
    then show ?thesis using sum_indicator_distinct[OF d, of "a_employee_id a"] by simp
  next
    case False
    then show ?thesis by simp
  qed
  finally show ?case using Cons.IH by simp
qed

lemma total_is_sum_of_summaries:
  assumes "store_inv s"
  shows "count_attendance (\<lambda>a. a_status a = st) s
     = sum_list (map (\<lambda>e. int (length (filter (\<lambda>a. a_employee_id a = e_id e \<and> a_status a = st) (attendance s))))
          (employees s))"
proof -
  from assms have d: "distinct (map e_id (employees s))"
    and o: "\<forall>a\<in>set (attendance s). a_employee_id a \<in> e_id ` set (employees s)"
    by (simp_all add: store_inv_def)
  have "filter (\<lambda>a. a_status a = st \<and> a_employee_id a \<in> e_id ` set (employees s)) (attendance s)
      = filter (\<lambda>a. a_status a = st) (attendance s)"
    by (rule filter_cong[OF refl]) (simp add: o)
  then show ?thesis
    by (simp add: count_attendance_def sum_counts_per_employee[OF d])
qed

subsection \<open>Marking twice\<close>

lemma filter_update_unique:
  assumes "distinct (map key xs)" and "x \<in> set xs" and "key (g x) = key x"
  shows "filter (\<lambda>a. key a = key x) (map (\<lambda>a. if a = x then g a else a) xs) = [g x]"
  using assms(1,2)
proof (induction xs)
  case Nil
  then show ?case by simp
next
  case (Cons a xs)
  from Cons.prems(1) have d: "distinct (map key xs)" and n: "key a \<notin> key ` set xs" by simp_all
  show ?case
  proof (cases "a = x")
    case True
    with n have nx: "\<forall>b\<in>set xs. key b \<noteq> key x" by (metis imageI)
    then have "\<forall>b\<in>set xs. b \<noteq> x" by metis
    then have "map (\<lambda>a. if a = x then g a else a) xs = xs"
      by (simp add: map_idI)
    moreover from nx have "filter (\<lambda>a. key a = key x) xs = []"
      by (simp add: filter_empty_conv)
    ultimately show ?thesis using True assms(3) by simp
  next
    case False
    with Cons.prems(2) have m: "x \<in> set xs" by simp
    with n have "key a \<noteq> key x" by (metis imageI)
    with False Cons.IH[OF d m] show ?thesis by simp
  qed
qed

lemma mark_attendance_Inr:
  assumes "mark_attendance s att new_id now = (s', Inr r)"
  shows "employees s' = employees s
         \<and> a_employee_id att \<in> e_id ` set (employees s)
         \<and> r \<in> set (attendance s')
         \<and> a_employee_id r = a_employee_id att \<and> a_date r = a_date att"
proof (cases "find (\<lambda>e. e_id e = a_employee_id att) (employees s)")
  case None
  with assms show ?thesis by (simp add: mark_attendance_def)
next
  case (Some e)
  from find_Some_member[OF Some] have emp: "a_employee_id att \<in> e_id ` set (employees s)"
    by (metis imageI)
  show ?thesis
  proof (cases "find (\<lambda>a. a_employee_id a = a_employee_id att \<and> a_date a = a_date att) (attendance s)")
    case None
    with Some assms emp show ?thesis
      by (auto simp: mark_attendance_def insert_attendance_def split: if_splits)
  next
    case existing: (Some existing)
    from find_Some_member[OF existing]
    have m: "existing \<in> set (attendance s)"
      and k: "a_employee_id existing = a_employee_id att" "a_date existing = a_date att" by simp_all
    from assms Some existing
    have s': "s' = s\<lparr>attendance :=
                     map (\<lambda>a. if a_id a = a_id existing
                               then a\<lparr>a_status := a_status att, a_created_at := now\<rparr> else a)
                         (attendance s)\<rparr>"
      and r: "r = \<lparr>a_employee_id = a_employee_id att, a_date = a_date att, a_status = a_status att,
                     a_id = a_id existing, a_created_at = now\<rparr>"
      by (simp_all add: mark_attendance_def)
    from k r have "r = existing\<lparr>a_status := a_status att, a_created_at := now\<rparr>"
      by simp
    with m have "r \<in> set (attendance s')"
      by (force simp: s')
    with s' r emp show ?thesis by simp
  qed
qed

subsection \<open>Evaluation of the sample data\<close>

lemmas eval_defs = ascii_def sample_library_def lower_latin1_def
  jane_def jane_row_def office_def emile_def emile_capitals_def emile_row_def init_db_def exec_def
  post_employee_def EmployeeCreate_validate_def validate_field_def field_length_def not_empty_def
  strip_def isspace_def create_employee_def insert_employee_def sql_lower_def
  post_attendance_def AttendanceCreate_validate_def validate_date_def
  mark_attendance_def insert_attendance_def delete_employee_def delete_attendance_def
  get_attendance_def order_by_desc_def

lemma office_exec:
  "office = exec sample_library
              [CreateEmployee jane (ascii ''u1'') (ascii ''2024-01-01T09:00:00''),
               MarkAttendance \<lparr>a_employee_id = ascii ''u1'', a_date = ascii ''2024-01-15'', a_status = Present\<rparr>
                 (ascii ''r1'') (ascii ''2024-01-15T09:00:00'')]"
  by (simp add: eval_defs)

section \<open>Claims\<close>

text \<open>
  Claim C1. Marking attendance for an existing employee: when a record for the employee and
  date exists, only that record changes, in place, to the requested status and the new
  \<^verbatim>\<open>created_at\<close>, and keeps its id; when none exists and the generated id is fresh, one
  record with that id is appended. The response carries the effective id, the requested
  date and status and the new \<^verbatim>\<open>created_at\<close>. The hypotheses on the table are its primary key
  and its \<^verbatim>\<open>UNIQUE(employee_id, date)\<close> constraint.
\<close>

theorem mark_attendance_upsert:
  assumes pk: "distinct (map a_id (attendance s))"
    and uq: "distinct (map (\<lambda>a. (a_employee_id a, a_date a)) (attendance s))"
    and emp: "\<exists>e\<in>set (employees s). e_id e = a_employee_id att"
  shows "(\<forall>existing\<in>set (attendance s).
            a_employee_id existing = a_employee_id att \<and> a_date existing = a_date att \<longrightarrow>
            mark_attendance s att new_id now =
              (s\<lparr>attendance :=
                   map (\<lambda>a. if a = existing then a\<lparr>a_status := a_status att, a_created_at := now\<rparr> else a)
                       (attendance s)\<rparr>,
               Inr \<lparr>a_employee_id = a_employee_id att, a_date = a_date att, a_status = a_status att,
                    a_id = a_id existing, a_created_at = now\<rparr>))
         \<and> ((\<forall>a\<in>set (attendance s). \<not> (a_employee_id a = a_employee_id att \<and> a_date a = a_date att))
              \<and> new_id \<notin> a_id ` set (attendance s) \<longrightarrow>
            mark_attendance s att new_id now =
              (s\<lparr>attendance := attendance s @
                   [\<lparr>a_employee_id = a_employee_id att, a_date = a_date att, a_status = a_status att,
                     a_id = new_id, a_created_at = now\<rparr>]\<rparr>,
               Inr \<lparr>a_employee_id = a_employee_id att, a_date = a_date att, a_status = a_status att,
                    a_id = new_id, a_created_at = now\<rparr>))"
proof (intro conjI ballI impI)
  fix existing
  assume "existing \<in> set (attendance s)"
    and "a_employee_id existing = a_employee_id att \<and> a_date existing = a_date att"
  with pk uq emp show "mark_attendance s att new_id now =
              (s\<lparr>attendance :=
                   map (\<lambda>a. if a = existing then a\<lparr>a_status := a_status att, a_created_at := now\<rparr> else a)
                       (attendance s)\<rparr>,
               Inr \<lparr>a_employee_id = a_employee_id att, a_date = a_date att, a_status = a_status att,
                    a_id = a_id existing, a_created_at = now\<rparr>)"
    by (rule mark_attendance_update)
next
  assume "(\<forall>a\<in>set (attendance s). \<not> (a_employee_id a = a_employee_id att \<and> a_date a = a_date att))
              \<and> new_id \<notin> a_id ` set (attendance s)"
  then have n: "\<forall>a\<in>set (attendance s). \<not> (a_employee_id a = a_employee_id att \<and> a_date a = a_date att)"
    and fr: "new_id \<notin> a_id ` set (attendance s)" by simp_all
  from emp n fr show "mark_attendance s att new_id now =
              (s\<lparr>attendance := attendance s @
                   [\<lparr>a_employee_id = a_employee_id att, a_date = a_date att, a_status = a_status att,
                     a_id = new_id, a_created_at = now\<rparr>]\<rparr>,
               Inr \<lparr>a_employee_id = a_employee_id att, a_date = a_date att, a_status = a_status att,
                    a_id = new_id, a_created_at = now\<rparr>)"
    by (rule mark_attendance_insert)
qed

theorem mark_attendance_upsert_witness:
  "distinct (map a_id (attendance office))
   \<and> distinct (map (\<lambda>a. (a_employee_id a, a_date a)) (attendance office))
   \<and> (\<exists>e\<in>set (employees office). e_id e = (ascii ''u1''))
   \<and> mark_attendance office \<lparr>a_employee_id = ascii ''u1'', a_date = ascii ''2024-01-15'', a_status = Absent\<rparr>
        (ascii ''r2'') (ascii ''2024-01-15T17:00:00'')
       = (\<lparr>employees = [jane_row],
           attendance = [\<lparr>a_employee_id = ascii ''u1'', a_date = ascii ''2024-01-15'', a_status = Absent,
                          a_id = ascii ''r1'', a_created_at = ascii ''2024-01-15T17:00:00''\<rparr>]\<rparr>,
          Inr \<lparr>a_employee_id = ascii ''u1'', a_date = ascii ''2024-01-15'', a_status = Absent,
               a_id = ascii ''r1'', a_created_at = ascii ''2024-01-15T17:00:00''\<rparr>)
   \<and> mark_attendance office \<lparr>a_employee_id = ascii ''u1'', a_date = ascii ''2024-01-16'', a_status = Present\<rparr>
        (ascii ''r2'') (ascii ''2024-01-16T09:00:00'')
       = (\<lparr>employees = [jane_row],
           attendance = [\<lparr>a_employee_id = ascii ''u1'', a_date = ascii ''2024-01-15'', a_status = Present,
                          a_id = ascii ''r1'', a_created_at = ascii ''2024-01-15T09:00:00''\<rparr>,
                         \<lparr>a_employee_id = ascii ''u1'', a_date = ascii ''2024-01-16'', a_status = Present,
                          a_id = ascii ''r2'', a_created_at = ascii ''2024-01-16T09:00:00''\<rparr>]\<rparr>,
          Inr \<lparr>a_employee_id = ascii ''u1'', a_date = ascii ''2024-01-16'', a_status = Present,
               a_id = ascii ''r2'', a_created_at = ascii ''2024-01-16T09:00:00''\<rparr>)"
  using mark_attendance_upsert
     [of office "\<lparr>a_employee_id = ascii ''u1'', a_date = ascii ''2024-01-15'', a_status = Absent\<rparr>" "ascii ''r2''" "ascii ''2024-01-15T17:00:00''"]
    mark_attendance_upsert
     [of office "\<lparr>a_employee_id = ascii ''u1'', a_date = ascii ''2024-01-16'', a_status = Present\<rparr>" "ascii ''r2''" "ascii ''2024-01-16T09:00:00''"]
  by (simp add: ascii_def office_def jane_row_def)

text \<open>
  Claim C2. After any sequence of requests on a new database the attendance table holds
  at most one record for each pair of employee and date. Marking Present and then Absent
  for the same employee and date leaves exactly one record for the pair, with status
  Absent and the id of the first mark.
\<close>

theorem attendance_unique_per_employee_and_date:
  "distinct (map (\<lambda>a. (a_employee_id a, a_date a)) (attendance (exec lib reqs)))
   \<and> (\<forall>s1 r1.
        mark_attendance (exec lib reqs) \<lparr>a_employee_id = E, a_date = d, a_status = Present\<rparr> id1 t1 = (s1, Inr r1)
        \<longrightarrow> snd (mark_attendance s1 \<lparr>a_employee_id = E, a_date = d, a_status = Absent\<rparr> id2 t2)
              = Inr \<lparr>a_employee_id = E, a_date = d, a_status = Absent, a_id = a_id r1, a_created_at = t2\<rparr>
          \<and> filter (\<lambda>a. a_employee_id a = E \<and> a_date a = d)
               (attendance (fst (mark_attendance s1 \<lparr>a_employee_id = E, a_date = d, a_status = Absent\<rparr> id2 t2)))
              = [\<lparr>a_employee_id = E, a_date = d, a_status = Absent, a_id = a_id r1, a_created_at = t2\<rparr>])"
proof (intro conjI allI impI)
  have i: "store_inv (exec lib reqs)" by (rule store_inv_exec)
  then show "distinct (map (\<lambda>a. (a_employee_id a, a_date a)) (attendance (exec lib reqs)))"
    by (simp add: store_inv_def)
  fix s1 r1
  assume a: "mark_attendance (exec lib reqs) \<lparr>a_employee_id = E, a_date = d, a_status = Present\<rparr> id1 t1 = (s1, Inr r1)"
  from store_inv_mark_attendance[OF i, of "\<lparr>a_employee_id = E, a_date = d, a_status = Present\<rparr>" id1 t1] a
  have i1: "store_inv s1" by simp
  then have pk: "distinct (map a_id (attendance s1))"
    and uq: "distinct (map (\<lambda>a. (a_employee_id a, a_date a)) (attendance s1))"
    by (simp_all add: store_inv_def)
  from mark_attendance_Inr[OF a]
  have e: "employees s1 = employees (exec lib reqs)" and ex: "E \<in> e_id ` set (employees (exec lib reqs))"
    and m: "r1 \<in> set (attendance s1)" and k: "a_employee_id r1 = E" "a_date r1 = d"
    by simp_all
  from ex e have emp: "\<exists>e\<in>set (employees s1). e_id e = a_employee_id \<lparr>a_employee_id = E, a_date = d, a_status = Absent\<rparr>"
    by auto
  from k have key: "a_employee_id r1 = a_employee_id \<lparr>a_employee_id = E, a_date = d, a_status = Absent\<rparr>
      \<and> a_date r1 = a_date \<lparr>a_employee_id = E, a_date = d, a_status = Absent\<rparr>" by simp
  note u = mark_attendance_update[OF pk uq emp m key, of id2 t2]
  from u show "snd (mark_attendance s1 \<lparr>a_employee_id = E, a_date = d, a_status = Absent\<rparr> id2 t2)
              = Inr \<lparr>a_employee_id = E, a_date = d, a_status = Absent, a_id = a_id r1, a_created_at = t2\<rparr>"
    by simp
  have f: "filter (\<lambda>a. (a_employee_id a, a_date a) = (a_employee_id r1, a_date r1))
             (map (\<lambda>a. if a = r1 then a\<lparr>a_status := Absent, a_created_at := t2\<rparr> else a) (attendance s1))
        = [r1\<lparr>a_status := Absent, a_created_at := t2\<rparr>]"
    by (rule filter_update_unique[OF uq m]) simp
  from k have g: "r1\<lparr>a_status := Absent, a_created_at := t2\<rparr>
      = \<lparr>a_employee_id = E, a_date = d, a_status = Absent, a_id = a_id r1, a_created_at = t2\<rparr>"
    by simp
  from u have u': "attendance (fst (mark_attendance s1 \<lparr>a_employee_id = E, a_date = d, a_status = Absent\<rparr> id2 t2))
      = map (\<lambda>a. if a = r1 then a\<lparr>a_status := Absent, a_created_at := t2\<rparr> else a) (attendance s1)"
    by simp
  from f k have "filter (\<lambda>a. a_employee_id a = E \<and> a_date a = d)
             (map (\<lambda>a. if a = r1 then a\<lparr>a_status := Absent, a_created_at := t2\<rparr> else a) (attendance s1))
        = [r1\<lparr>a_status := Absent, a_created_at := t2\<rparr>]"
    by simp
  then show "filter (\<lambda>a. a_employee_id a = E \<and> a_date a = d)
               (attendance (fst (mark_attendance s1 \<lparr>a_employee_id = E, a_date = d, a_status = Absent\<rparr> id2 t2)))
              = [\<lparr>a_employee_id = E, a_date = d, a_status = Absent, a_id = a_id r1, a_created_at = t2\<rparr>]"
    by (simp only: u' g)
qed

theorem attendance_unique_per_employee_and_date_witness:
  "mark_attendance (exec sample_library [CreateEmployee jane (ascii ''u1'') (ascii ''2024-01-01T09:00:00'')])
       \<lparr>a_employee_id = ascii ''u1'', a_date = ascii ''2024-01-15'', a_status = Present\<rparr> (ascii ''r1'') (ascii ''2024-01-15T09:00:00'')
     = (office, Inr \<lparr>a_employee_id = ascii ''u1'', a_date = ascii ''2024-01-15'', a_status = Present,
                     a_id = ascii ''r1'', a_created_at = ascii ''2024-01-15T09:00:00''\<rparr>)
   \<and> snd (mark_attendance office \<lparr>a_employee_id = ascii ''u1'', a_date = ascii ''2024-01-15'', a_status = Absent\<rparr>
            (ascii ''r2'') (ascii ''2024-01-15T17:00:00''))
     = Inr \<lparr>a_employee_id = ascii ''u1'', a_date = ascii ''2024-01-15'', a_status = Absent,
            a_id = ascii ''r1'', a_created_at = ascii ''2024-01-15T17:00:00''\<rparr>
   \<and> filter (\<lambda>a. a_employee_id a = (ascii ''u1'') \<and> a_date a = (ascii ''2024-01-15''))
        (attendance (fst (mark_attendance office
           \<lparr>a_employee_id = ascii ''u1'', a_date = ascii ''2024-01-15'', a_status = Absent\<rparr> (ascii ''r2'') (ascii ''2024-01-15T17:00:00''))))
     = [\<lparr>a_employee_id = ascii ''u1'', a_date = ascii ''2024-01-15'', a_status = Absent,
         a_id = ascii ''r1'', a_created_at = ascii ''2024-01-15T17:00:00''\<rparr>]
   \<and> distinct (map (\<lambda>a. (a_employee_id a, a_date a))
        (attendance (exec sample_library [CreateEmployee jane (ascii ''u1'') (ascii ''2024-01-01T09:00:00'')])))"
proof -
  have p: "mark_attendance (exec sample_library [CreateEmployee jane (ascii ''u1'') (ascii ''2024-01-01T09:00:00'')])
       \<lparr>a_employee_id = ascii ''u1'', a_date = ascii ''2024-01-15'', a_status = Present\<rparr> (ascii ''r1'') (ascii ''2024-01-15T09:00:00'')
     = (office, Inr \<lparr>a_employee_id = ascii ''u1'', a_date = ascii ''2024-01-15'', a_status = Present,
                     a_id = ascii ''r1'', a_created_at = ascii ''2024-01-15T09:00:00''\<rparr>)"
    by (simp add: eval_defs)
  note t = attendance_unique_per_employee_and_date
    [of sample_library "[CreateEmployee jane (ascii ''u1'') (ascii ''2024-01-01T09:00:00'')]" "ascii ''u1''" "ascii ''2024-01-15''"
        "ascii ''r1''" "ascii ''2024-01-15T09:00:00''" "ascii ''r2''" "ascii ''2024-01-15T17:00:00''"]
  from t[THEN conjunct2, rule_format, OF p] t[THEN conjunct1] p show ?thesis
    by simp
qed

text \<open>
  Claim C3. Deleting an employee: an unknown id gives Not-Found and leaves the store as it
  was; otherwise the employee's attendance rows and the employee row are removed together,
  the response has no content, and the attendance list filtered by that id is then empty.
  The id is a path segment of the request, hence not the empty string, which the list
  would read as no filter.
\<close>

theorem delete_employee_cascade:
  "if \<exists>e\<in>set (employees s). e_id e = employee_id
   then delete_employee s employee_id =
          (\<lparr>employees = filter (\<lambda>e. e_id e \<noteq> employee_id) (employees s),
            attendance = filter (\<lambda>a. a_employee_id a \<noteq> employee_id) (attendance s)\<rparr>, Inr ())
        \<and> (employee_id \<noteq> [] \<longrightarrow>
             get_attendance (fst (delete_employee s employee_id)) (Some employee_id) None = [])
   else delete_employee s employee_id = (s, Inl (HTTPException 404 ''Employee not found''))"
proof (cases "\<exists>e\<in>set (employees s). e_id e = employee_id")
  case True
  from find_exists[OF this] obtain e where e: "find (\<lambda>e. e_id e = employee_id) (employees s) = Some e"
    by blast
  have d: "delete_employee s employee_id =
                (\<lparr>employees = filter (\<lambda>e. e_id e \<noteq> employee_id) (employees s),
                  attendance = filter (\<lambda>a. a_employee_id a \<noteq> employee_id) (attendance s)\<rparr>, Inr ())"
    by (simp add: delete_employee_def e)
  have "employee_id \<noteq> [] \<longrightarrow>
          get_attendance (fst (delete_employee s employee_id)) (Some employee_id) None = []"
    by (simp add: d get_attendance_def order_by_desc_def)
  with d True show ?thesis by simp
next
  case False
  then have "find (\<lambda>e. e_id e = employee_id) (employees s) = None"
    by (simp add: find_None_iff)
  with False show ?thesis by (simp add: delete_employee_def)
qed

theorem delete_employee_cascade_witness:
  "(ascii ''u1'') \<noteq> [] \<and> (\<exists>e\<in>set (employees office). e_id e = (ascii ''u1''))
   \<and> delete_employee office (ascii ''u1'') = (init_db, Inr ())
   \<and> get_attendance (fst (delete_employee office (ascii ''u1''))) (Some (ascii ''u1'')) None = []
   \<and> \<not> (\<exists>e\<in>set (employees office). e_id e = (ascii ''u9''))
   \<and> delete_employee office (ascii ''u9'') = (office, Inl (HTTPException 404 ''Employee not found''))"
  using delete_employee_cascade[of office "ascii ''u1''"] delete_employee_cascade[of office "ascii ''u9''"]
  by (simp add: ascii_def office_def jane_row_def init_db_def get_attendance_def order_by_desc_def)

text \<open>
  Claim C4. Creating an employee whose \<^verbatim>\<open>employee_id\<close> exists gives the error that names
  the Employee ID, and otherwise an address that an existing row has up to the case of
  ASCII letters gives the error that names the email, the store unchanged
  (\<open>create_employee_rejects_duplicates\<close>). For a letter outside ASCII the handler does
  not do what the claim says: the query compares with SQLite's \<^verbatim>\<open>LOWER\<close>, which keeps such
  a letter, and the row is stored with Python's \<^verbatim>\<open>lower\<close>, which folds it. After the
  creation of an employee with the address \<^verbatim>\<open>emile@example.com\<close> written with U+00E9, the
  creation of another with the same address in capitals passes both checks and its
  \<^verbatim>\<open>INSERT\<close> breaks \<^verbatim>\<open>UNIQUE\<close> on \<^verbatim>\<open>email\<close>: the handler leaves with \<^verbatim>\<open>IntegrityError\<close>, not
  with the error that names the email, which an address in ASCII capitals does get.
\<close>

theorem create_employee_case_collision:
  "post_employee sample_library init_db emile (ascii ''u2'') (ascii ''2024-01-02T09:00:00'')
     = (\<lparr>employees = [emile_row], attendance = []\<rparr>, Inr emile_row)
   \<and> py_EmailStr sample_library (e_email emile_capitals) = Some ([201] @ ascii ''MILE@example.com'')
   \<and> py_lower sample_library ([201] @ ascii ''MILE@example.com'') = e_email emile_row
   \<and> e_employee_id emile_capitals \<noteq> e_employee_id emile_row
   \<and> post_employee sample_library \<lparr>employees = [emile_row], attendance = []\<rparr> emile_capitals
        (ascii ''u3'') (ascii ''2024-01-03T09:00:00'')
     = (\<lparr>employees = [emile_row], attendance = []\<rparr>, Inl IntegrityError)
   \<and> post_employee sample_library office
        \<lparr>e_employee_id = ascii ''E004'', e_full_name = ascii ''Jane Doe'',
         e_email = ascii ''JANE.DOE@example.COM'', e_department = ascii ''HR''\<rparr>
        (ascii ''u4'') (ascii ''2024-01-04T09:00:00'')
     = (office, Inl (HTTPException 400 ''An employee with this email already exists''))"
  by (simp add: eval_defs)

text \<open>
  Claim C5. After any sequence of requests on a new database the dashboard's
  \<^verbatim>\<open>total_present\<close> is the sum of \<^verbatim>\<open>present_days\<close> over the employee list, and
  \<^verbatim>\<open>total_absent\<close> the sum of \<^verbatim>\<open>absent_days\<close>.
\<close>

theorem dashboard_totals_sum_of_employee_counts:
  "total_present (get_dashboard_stats (exec lib reqs) today)
     = sum_list (map present_days (get_employees (exec lib reqs)))
   \<and> total_absent (get_dashboard_stats (exec lib reqs) today)
     = sum_list (map absent_days (get_employees (exec lib reqs)))"
proof -
  have i: "store_inv (exec lib reqs)" by (rule store_inv_exec)
  then have d: "distinct (map e_id (employees (exec lib reqs)))" by (simp add: store_inv_def)
  have p: "sum_list (map present_days (get_employees (exec lib reqs)))
      = sum_list (map (\<lambda>e. int (length (filter (\<lambda>a. a_employee_id a = e_id e \<and> a_status a = Present)
                         (attendance (exec lib reqs))))) (employees (exec lib reqs)))"
    by (simp add: get_employees_rows[OF d] sum_list_order_by_desc comp_def employee_summary_def)
  have a: "sum_list (map absent_days (get_employees (exec lib reqs)))
      = sum_list (map (\<lambda>e. int (length (filter (\<lambda>a. a_employee_id a = e_id e \<and> a_status a = Absent)
                         (attendance (exec lib reqs))))) (employees (exec lib reqs)))"
    by (simp add: get_employees_rows[OF d] sum_list_order_by_desc comp_def employee_summary_def)
  show ?thesis
    by (simp add: get_dashboard_stats_def p a total_is_sum_of_summaries[OF i])
qed

theorem dashboard_totals_sum_of_employee_counts_witness:
  "total_present (get_dashboard_stats office (ascii ''2024-01-15'')) = 1
   \<and> sum_list (map present_days (get_employees office)) = 1
   \<and> total_absent (get_dashboard_stats office (ascii ''2024-01-15'')) = 0
   \<and> sum_list (map absent_days (get_employees office)) = 0"
proof -
  note t = dashboard_totals_sum_of_employee_counts
    [of sample_library "[CreateEmployee jane (ascii ''u1'') (ascii ''2024-01-01T09:00:00''),
          MarkAttendance \<lparr>a_employee_id = ascii ''u1'', a_date = ascii ''2024-01-15'', a_status = Present\<rparr>
                    (ascii ''r1'') (ascii ''2024-01-15T09:00:00'')]" "ascii ''2024-01-15''", folded office_exec]
  have "total_present (get_dashboard_stats office (ascii ''2024-01-15'')) = 1"
    and "total_absent (get_dashboard_stats office (ascii ''2024-01-15'')) = 0"
    by (simp_all add: get_dashboard_stats_def count_attendance_def office_def ascii_def)
  with t show ?thesis by simp
qed

text \<open>
  Claim C6. After any sequence of requests on a new database the employee list holds
  every employee once, with its counts of Present and of Absent attendance records (zero
  where it has none), ordered by \<^verbatim>\<open>created_at\<close> descending; an employee just created is
  found under the returned id with both counts zero.
\<close>

theorem get_employees_lists_every_employee:
  "mset (get_employees (exec lib reqs))
     = mset (map (employee_summary (attendance (exec lib reqs))) (employees (exec lib reqs)))
   \<and> distinct (map e_id (get_employees (exec lib reqs)))
   \<and> sorted_wrt (\<lambda>x y. e_created_at y \<le> e_created_at x) (get_employees (exec lib reqs))
   \<and> (\<forall>s' r. post_employee lib (exec lib reqs) raw new_id now = (s', Inr r) \<longrightarrow>
         e_id r = new_id
         \<and> get_employee s' new_id =
             Inr \<lparr>e_employee_id = e_employee_id r, e_full_name = e_full_name r, e_email = e_email r,
                  e_department = e_department r, e_id = new_id, e_created_at = e_created_at r,
                  present_days = 0, absent_days = 0\<rparr>)"
proof (intro conjI allI impI)
  have i: "store_inv (exec lib reqs)" by (rule store_inv_exec)
  then have d: "distinct (map e_id (employees (exec lib reqs)))" by (simp add: store_inv_def)
  show "mset (get_employees (exec lib reqs))
     = mset (map (employee_summary (attendance (exec lib reqs))) (employees (exec lib reqs)))"
    by (simp add: get_employees_rows[OF d] mset_order_by_desc)
  show "distinct (map e_id (get_employees (exec lib reqs)))"
    by (rule distinct_ids_get_employees[OF d])
  show "sorted_wrt (\<lambda>x y. e_created_at y \<le> e_created_at x) (get_employees (exec lib reqs))"
    by (simp only: get_employees_rows[OF d] sorted_order_by_desc)
  fix s' r
  assume p: "post_employee lib (exec lib reqs) raw new_id now = (s', Inr r)"
  then obtain employee where c: "create_employee lib (exec lib reqs) employee new_id now = (s', Inr r)"
    by (auto simp: post_employee_def split: sum.splits)
  from create_employee_Inr[OF c] show id: "e_id r = new_id" by simp
  from get_employee_after_create[OF i c] id
  show "get_employee s' new_id =
             Inr \<lparr>e_employee_id = e_employee_id r, e_full_name = e_full_name r, e_email = e_email r,
                  e_department = e_department r, e_id = new_id, e_created_at = e_created_at r,
                  present_days = 0, absent_days = 0\<rparr>"
    by simp
qed

theorem get_employees_lists_every_employee_witness:
  "post_employee sample_library (exec sample_library []) jane (ascii ''u1'') (ascii ''2024-01-01T09:00:00'')
     = (\<lparr>employees = [jane_row], attendance = []\<rparr>, Inr jane_row)
   \<and> get_employee \<lparr>employees = [jane_row], attendance = []\<rparr> (ascii ''u1'')
     = Inr \<lparr>e_employee_id = ascii ''E001'', e_full_name = ascii ''Jane Doe'', e_email = ascii ''jane.doe@example.com'',
            e_department = ascii ''HR'', e_id = ascii ''u1'', e_created_at = ascii ''2024-01-01T09:00:00'',
            present_days = 0, absent_days = 0\<rparr>
   \<and> get_employees (exec sample_library []) = []"
proof -
  have p: "post_employee sample_library (exec sample_library []) jane (ascii ''u1'') (ascii ''2024-01-01T09:00:00'')
     = (\<lparr>employees = [jane_row], attendance = []\<rparr>, Inr jane_row)"
    by (simp add: eval_defs)
  note t = get_employees_lists_every_employee
    [of sample_library "[]" jane "ascii ''u1''" "ascii ''2024-01-01T09:00:00''"]
  have e: "employees (exec sample_library []) = []" by (simp add: exec_def init_db_def)
  from t[THEN conjunct1] e have g: "get_employees (exec sample_library []) = []" by simp
  from t[THEN conjunct2, THEN conjunct2, THEN conjunct2, rule_format, OF p] p g show ?thesis
    by (simp add: jane_row_def)
qed

text \<open>
  Claim C7, as amended. The attendance list holds exactly the records that match every
  filter that is supplied and not the empty string, ordered by date descending and, for
  equal dates, by \<^verbatim>\<open>created_at\<close> descending. The claim as stated, for every supplied filter,
  fails for the empty string, which the handler reads as no filter.
\<close>

theorem get_attendance_filters:
  "mset (get_attendance s employee_id date)
     = mset (filter (matches_supplied (effective employee_id) (effective date)) (attendance s))
   \<and> sorted_wrt (\<lambda>a b. a_date b < a_date a \<or> (a_date a = a_date b \<and> a_created_at b \<le> a_created_at a))
        (get_attendance s employee_id date)"
proof
  show "mset (get_attendance s employee_id date)
     = mset (filter (matches_supplied (effective employee_id) (effective date)) (attendance s))"
    by (simp only: get_attendance_rows mset_order_by_desc)
  have "sorted_wrt (\<lambda>a b. (a_date b, a_created_at b) \<le> (a_date a, a_created_at a))
          (get_attendance s employee_id date)"
    by (simp only: get_attendance_rows sorted_order_by_desc)
  then show "sorted_wrt (\<lambda>a b. a_date b < a_date a \<or> (a_date a = a_date b \<and> a_created_at b \<le> a_created_at a))
        (get_attendance s employee_id date)"
    by (rule sorted_wrt_mono_rel[rotated]) (auto simp: less_eq_prod_def)
qed

theorem get_attendance_filters_witness:
  "get_attendance office None (Some (ascii ''2024-01-15'')) = attendance office
   \<and> get_attendance office (Some (ascii ''u1'')) (Some (ascii ''2024-01-16'')) = []"
  using get_attendance_filters[of office None "Some (ascii ''2024-01-15'')"]
    get_attendance_filters[of office "Some (ascii ''u1'')" "Some (ascii ''2024-01-16'')"]
  by (simp add: ascii_def office_def matches_supplied_def effective_def)

theorem get_attendance_filters_counterexample:
  "set (get_attendance office (Some []) None)
     \<noteq> set (filter (matches_supplied (Some []) None) (attendance office))"
  by (simp add: ascii_def office_def get_attendance_def order_by_desc_def matches_supplied_def)

text \<open>
  Claim C8. Marking attendance for an employee id that no employee has gives Not-Found and
  leaves the store as it was.
\<close>

theorem mark_attendance_unknown_employee:
  assumes "\<forall>e\<in>set (employees s). e_id e \<noteq> a_employee_id att"
  shows "mark_attendance s att new_id now = (s, Inl (HTTPException 404 ''Employee not found''))"
proof -
  have "find (\<lambda>e. e_id e = a_employee_id att) (employees s) = None"
    using assms by (simp add: find_None_iff)
  then show ?thesis by (simp add: mark_attendance_def)
qed

theorem mark_attendance_unknown_employee_witness:
  "(ascii ''u2'') \<notin> e_id ` set (employees office)
   \<and> mark_attendance office \<lparr>a_employee_id = ascii ''u2'', a_date = ascii ''2024-01-15'', a_status = Present\<rparr> (ascii ''r2'') (ascii ''2024-01-15T10:00:00'')
       = (office, Inl (HTTPException 404 ''Employee not found''))"
  using mark_attendance_unknown_employee
    [of office "\<lparr>a_employee_id = ascii ''u2'', a_date = ascii ''2024-01-15'', a_status = Present\<rparr>" "ascii ''r2''" "ascii ''2024-01-15T10:00:00''"]
  by (simp add: ascii_def office_def jane_row_def)

text \<open>
  Claim C9, as amended. A successful creation stores and returns \<^verbatim>\<open>employee_id\<close>,
  \<^verbatim>\<open>full_name\<close> and \<^verbatim>\<open>department\<close> stripped of white space at both ends, and as email the
  lower case of the address that the \<^verbatim>\<open>EmailStr\<close> validation delivers for the supplied one;
  the name \<^verbatim>\<open>"  Jane Doe  "\<close> is stored and returned as \<^verbatim>\<open>"Jane Doe"\<close>. The claim as stated,
  the lower case of the supplied email itself, fails for an address supplied with white
  space around it, which the validation removes.
\<close>

theorem post_employee_normalises:
  assumes "post_employee lib s raw new_id now = (s', Inr r)"
  shows "e_employee_id r = strip (e_employee_id raw) \<and> e_full_name r = strip (e_full_name raw)
         \<and> e_department r = strip (e_department raw)
         \<and> (\<exists>email. py_EmailStr lib (e_email raw) = Some email \<and> e_email r = py_lower lib email)
         \<and> employees s' = employees s @ [r] \<and> attendance s' = attendance s
         \<and> (e_full_name raw = ascii ''  Jane Doe  '' \<longrightarrow> e_full_name r = ascii ''Jane Doe'')"
proof -
  from assms obtain employee where v: "EmployeeCreate_validate lib raw = Inr employee"
    and c: "create_employee lib s employee new_id now = (s', Inr r)"
    by (auto simp: post_employee_def split: sum.splits)
  from EmployeeCreate_validate_Inr[OF v] obtain email
    where m: "py_EmailStr lib (e_email raw) = Some email"
      and e: "employee = \<lparr>e_employee_id = strip (e_employee_id raw), e_full_name = strip (e_full_name raw),
                     e_email = email, e_department = strip (e_department raw)\<rparr>"
    by blast
  note k = create_employee_Inr[OF c]
  have j: "strip (ascii ''  Jane Doe  '') = ascii ''Jane Doe''"
    by (simp add: strip_def isspace_def ascii_def)
  from k e have f: "e_employee_id r = strip (e_employee_id raw)" "e_full_name r = strip (e_full_name raw)"
    "e_department r = strip (e_department raw)" "e_email r = py_lower lib email"
    "employees s' = employees s @ [r]" "attendance s' = attendance s"
    by simp_all
  from f(4) m have "\<exists>email. py_EmailStr lib (e_email raw) = Some email \<and> e_email r = py_lower lib email"
    by blast
  with f j show ?thesis by simp
qed

theorem post_employee_normalises_witness:
  "post_employee sample_library init_db jane (ascii ''u1'') (ascii ''2024-01-01T09:00:00'')
     = (\<lparr>employees = [jane_row], attendance = []\<rparr>, Inr jane_row)
   \<and> e_full_name jane = ascii ''  Jane Doe  '' \<and> e_full_name jane_row = ascii ''Jane Doe''
   \<and> e_employee_id jane_row = strip (e_employee_id jane)
   \<and> py_EmailStr sample_library (e_email jane) = Some (ascii ''Jane.Doe@example.com'')
   \<and> e_email jane_row = py_lower sample_library (ascii ''Jane.Doe@example.com'')"
proof -
  have p: "post_employee sample_library init_db jane (ascii ''u1'') (ascii ''2024-01-01T09:00:00'')
     = (\<lparr>employees = [jane_row], attendance = []\<rparr>, Inr jane_row)"
    by (simp add: eval_defs)
  have q: "py_EmailStr sample_library (e_email jane) = Some (ascii ''Jane.Doe@example.com'')"
    by (simp add: eval_defs)
  from post_employee_normalises[OF p] p q show ?thesis
    by (simp add: jane_def jane_row_def strip_def isspace_def ascii_def)
qed

theorem post_employee_normalises_counterexample:
  "post_employee sample_library init_db jane (ascii ''u1'') (ascii ''2024-01-01T09:00:00'')
     = (\<lparr>employees = [jane_row], attendance = []\<rparr>, Inr jane_row)
   \<and> e_email jane_row \<noteq> py_lower sample_library (e_email jane)"
  by (simp add: eval_defs)

text \<open>
  Claim C10. In the attendance list a filter given as the empty string is read as absent:
  with \<^verbatim>\<open>employee_id=""\<close> and no date, every attendance record is returned.
\<close>

theorem get_attendance_empty_string:
  "get_attendance s (Some []) date = get_attendance s None date
   \<and> get_attendance s employee_id (Some []) = get_attendance s employee_id None
   \<and> mset (get_attendance s (Some []) None) = mset (attendance s)"
  by (simp add: get_attendance_def mset_order_by_desc)

end
